theory Spec2Isabelle
  imports Main "HOL-Library.Word" "HOL-Library.Sublist"
begin

section \<open>Shuttle: the error-page cache (\<open>ErrorPage\<close>, \<open>ErrorResponse\<close>)\<close>

text \<open>
  Go strings and byte slices are lists of bytes (\<open>string\<close>). An \<open>http.Header\<close> is a map
  from a header name to its list of values; a nil header and an empty one read alike, so
  both are \<open>Map.empty\<close>. A nil byte slice is \<open>None\<close>. HTTP status codes are only compared,
  never computed with, and are \<open>int\<close>.
\<close>

type_synonym bytes = string
type_synonym header = "string \<rightharpoonup> string list"

text \<open>Go's \<open>error\<close> values: a plain error carrying its message, or the \<open>DialError\<close>
  wrapper around another error.\<close>

datatype error = Err string | DialError error

text \<open>What \<open>ioutil.ReadAll(resp.Body)\<close> gives for a response: an error or all the bytes.\<close>

datatype read_result = ReadErr error | ReadOk bytes

record Response =
  StatusCode :: int
  Header :: header
  Body :: read_result

text \<open>The HTTP client of the cache (\<open>e.client.Get\<close>): for a location, an error or a
  response. A call of the model takes the client as it answers during that call.\<close>

type_synonym client = "string \<Rightarrow> error + Response"

record ErrorPage =
  Location :: string
  StatusCodes :: "int list"
  body :: "bytes option"
  header :: header

text \<open>
  \<open>ErrorResponse.pages\<close> maps a status to a pointer to its page, and several statuses may
  share one page. A pointer is a reference into the page store; the store also keeps, in
  order, the locations the client was asked for.
\<close>

type_synonym ref = nat

record ErrorResponse =
  pages :: "int \<rightharpoonup> ref"

record pagestate =
  store :: "ref \<Rightarrow> ErrorPage"
  requests :: "string list"

definition ErrorHeaders :: "string list" where
  "ErrorHeaders =
     [''Content-Type'', ''Content-Encoding'', ''Cache-Control'',
      ''Last-Modified'', ''Retry-After'', ''Set-Cookie'']"

text \<open>The first loop of \<open>fetch\<close>: a status equal to one of the page's registered codes
  becomes \<open>http.StatusOK\<close>.\<close>

fun okStatus :: "int list \<Rightarrow> int \<Rightarrow> int" where
  "okStatus [] status = status"
| "okStatus (code # codes) status = (if status = code then 200 else okStatus codes status)"

text \<open>The second loop of \<open>fetch\<close>: copy the listed headers that the response has.\<close>

fun copyHeaders :: "string list \<Rightarrow> header \<Rightarrow> header \<Rightarrow> header" where
  "copyHeaders [] src hdr = hdr"
| "copyHeaders (key # keys) src hdr =
     (case src key of
        Some vals \<Rightarrow> copyHeaders keys src (hdr(key \<mapsto> vals))
      | None \<Rightarrow> copyHeaders keys src hdr)"

definition fetch :: "client \<Rightarrow> ref \<Rightarrow> pagestate \<Rightarrow> pagestate" where
  "fetch cl p st =
     (let page = store st p;
          st1 = st\<lparr>requests := requests st @ [Location page]\<rparr>
      in case cl (Location page) of
           Inl err \<Rightarrow> st1
         | Inr resp \<Rightarrow>
             if okStatus (StatusCodes page) (StatusCode resp) \<noteq> 200 then st1
             else
               let hdr = copyHeaders ErrorHeaders (Header resp) Map.empty
               in case Body resp of
                    ReadErr err \<Rightarrow> st1
                  | ReadOk b \<Rightarrow>
                      if length b > 0
                      then st1\<lparr>store := (store st1)(p := page\<lparr>header := hdr, body := Some b\<rparr>)\<rparr>
                      else st1)"

definition Get :: "client \<Rightarrow> ErrorResponse \<Rightarrow> int \<Rightarrow> pagestate \<Rightarrow> ref option \<times> pagestate" where
  "Get cl e code st =
     (case pages e code of
        None \<Rightarrow> (None, st)
      | Some p \<Rightarrow>
          if body (store st p) \<noteq> None then (Some p, st)
          else (Some p, fetch cl p st))"

text \<open>
  The \<open>http.ResponseWriter\<close> the callback writes to: its header map, the status once
  written, and the bytes of the body written so far. \<open>WriteHeader\<close> takes effect once;
  \<open>Write\<close> before any \<open>WriteHeader\<close> sends status 200 first.
\<close>

record ResponseWriter =
  rw_header :: header
  rw_status :: "int option"
  rw_body :: bytes

definition WriteHeader :: "int \<Rightarrow> ResponseWriter \<Rightarrow> ResponseWriter" where
  "WriteHeader code w = (if rw_status w = None then w\<lparr>rw_status := Some code\<rparr> else w)"

definition Write :: "bytes \<Rightarrow> ResponseWriter \<Rightarrow> ResponseWriter" where
  "Write b w = (let w1 = WriteHeader 200 w in w1\<lparr>rw_body := rw_body w1 @ b\<rparr>)"

text \<open>The fields of \<open>ProxyRequest\<close> that \<open>CheckResponse\<close> uses: the upstream response and
  the writer to the client.\<close>

record ProxyRequest =
  pr_Response :: Response
  pr_ResponseWriter :: ResponseWriter

text \<open>\<open>ErrorPage.Body\<close> as a byte slice to write: a nil slice writes nothing.\<close>

definition slice :: "bytes option \<Rightarrow> bytes" where
  "slice b = (case b of None \<Rightarrow> [] | Some bs \<Rightarrow> bs)"

text \<open>\<open>CheckResponse\<close> returns the callback's result (\<open>False\<close> ends the pipeline: the
  upstream response is not streamed), the request with its writer, and the page state.\<close>

definition CheckResponse ::
  "client \<Rightarrow> ErrorResponse \<Rightarrow> ProxyRequest \<Rightarrow> pagestate \<Rightarrow> bool \<times> ProxyRequest \<times> pagestate" where
  "CheckResponse cl e pr st =
     (case Get cl e (StatusCode (pr_Response pr)) st of
        (Some p, st') \<Rightarrow>
          let errPage = store st' p;
              w = pr_ResponseWriter pr;
              w1 = w\<lparr>rw_header := rw_header w ++ header errPage\<rparr>;
              w2 = WriteHeader (StatusCode (pr_Response pr)) w1;
              w3 = Write (slice (body errPage)) w2
          in (False, pr\<lparr>pr_ResponseWriter := w3\<rparr>, st')
      | (None, st') \<Rightarrow> (True, pr, st'))"

section \<open>Shuttle: services and backends\<close>

text \<open>
  Go's \<open>int\<close> (64 bits on the platforms the proxy runs on), \<open>int64\<close> and \<open>time.Duration\<close>
  (nanoseconds) are 64-bit words: \<open>+\<close> and \<open>*\<close> wrap around. A \<open>net.Conn\<close> is the number
  of its socket.
\<close>

type_synonym int64 = "64 word"
type_synonym conn = nat

definition Millisecond :: int64 where
  "Millisecond = 1000000"

definition Second :: int64 where
  "Second = 1000000000"

text \<open>
  Modelled from the spec: \<open>client.BackendConfig\<close> and \<open>client.ServiceConfig\<close> (package
  \<open>shuttle/client\<close>), by the JSON fields the spec lists and the fields the source reads.
  \<open>ErrorPages\<close>, a Go map from a location to its status codes, is an association list.
\<close>

record BackendConfig =
  bc_Name :: string
  bc_Addr :: string
  bc_CheckAddr :: string

record ServiceConfig =
  c_Name :: string
  c_Addr :: string
  c_VirtualHosts :: "string list"
  c_Backends :: "BackendConfig list"
  c_Balance :: string
  c_CheckInterval :: int64
  c_Fall :: int64
  c_Rise :: int64
  c_ClientTimeout :: int64
  c_ServerTimeout :: int64
  c_DialTimeout :: int64
  c_ErrorPages :: "(string \<times> int list) list"

text \<open>
  Modelled from the spec: the \<open>Backend\<close> struct, by the fields \<open>service.go\<close> reads and
  writes and the counters the spec lists.
\<close>

record Backend =
  b_Name :: string
  b_Addr :: string
  b_CheckAddr :: string
  up :: bool
  rwTimeout :: int64
  dialTimeout :: int64
  checkInterval :: int64
  b_Sent :: int64
  b_Rcvd :: int64
  b_Errors :: int64
  b_Conns :: int64
  b_Active :: int64
  b_HTTPActive :: int64

text \<open>\<open>timeoutListener\<close>: the listener of \<open>net.Listen\<close> (its number) and the timeout.\<close>

record timeoutListener =
  tl_Listener :: nat
  tl_rwTimeout :: int64

text \<open>
  Calls into code that is not part of \<open>service.go\<close> (\<open>Backend.Start\<close>, \<open>Backend.Stop\<close>,
  \<open>Backend.Proxy\<close>), the accept loop that \<open>run\<close> spawns, and closing a connection or a
  listener are recorded, in order, as events. Logging is not modelled.
\<close>

datatype event =
    BackendStart ref
  | BackendStop ref
  | BackendProxy ref conn conn
  | ConnClose conn
  | ListenerClose nat
  | AcceptLoop nat

text \<open>
  Backends are shared through pointers: \<open>s.Backends\<close> and the list the balancer returns
  hold references into the heap. \<open>fresh\<close> is the next unused reference, \<open>dials\<close> counts
  the dials made so far.
\<close>

record world =
  heap :: "ref \<Rightarrow> Backend"
  fresh :: ref
  dials :: nat
  trace :: "event list"

text \<open>\<open>net.Listen\<close> gives an error or a listener for an address.\<close>

type_synonym listen = "string \<Rightarrow> error + nat"

text \<open>A panic of the Go runtime: a call through a nil function value or a nil
  interface.\<close>

datatype panic = NilDereference

text \<open>The function values \<open>s.next\<close> can hold.\<close>

datatype balancer = roundRobin | leastConn

datatype ProxyCallback = cb_sslRedirect | cb_logProxyRequest | cb_errStats | cb_CheckResponse

text \<open>
  Modelled from the spec: the \<open>ReverseProxy\<close> that \<open>NewReverseProxy\<close> builds, by the
  settings \<open>NewService\<close> gives it. Its transport dials with \<open>Service.Dial\<close> and its
  director sets the scheme to http.
\<close>

record ReverseProxy =
  MaxIdleConnsPerHost :: int64
  FlushInterval :: int64
  OnRequest :: "ProxyCallback list"
  OnResponse :: "ProxyCallback list"

record Dialer =
  Timeout :: int64
  KeepAlive :: int64

text \<open>The \<open>Service\<close> struct. The traffic counters of the service, the round-robin cursor
  and the error-page cache are not read by the functions modelled here and are left out;
  the error-page cache is the \<open>ErrorResponse\<close> above.\<close>

record Service =
  s_Name :: string
  s_Addr :: string
  s_VirtualHosts :: "string list"
  s_Backends :: "ref list"
  s_Balance :: string
  s_CheckInterval :: int64
  s_Fall :: int64
  s_Rise :: int64
  s_ClientTimeout :: int64
  s_ServerTimeout :: int64
  s_DialTimeout :: int64
  s_next :: "balancer option"
  s_listener :: "timeoutListener option"
  s_httpProxy :: "ReverseProxy option"
  s_errPagesCfg :: "(string \<times> int list) list"
  s_dialer :: "Dialer option"

text \<open>
  Modelled from the spec: \<open>NewBackend\<close> allocates a backend named and addressed as the
  config says, with every counter zero.
\<close>

definition NewBackend :: "BackendConfig \<Rightarrow> world \<Rightarrow> ref \<times> world" where
  "NewBackend cfg w =
     (fresh w,
      w\<lparr>heap := (heap w)(fresh w :=
            \<lparr>b_Name = bc_Name cfg, b_Addr = bc_Addr cfg, b_CheckAddr = bc_CheckAddr cfg,
             up = False, rwTimeout = 0, dialTimeout = 0, checkInterval = 0,
             b_Sent = 0, b_Rcvd = 0, b_Errors = 0, b_Conns = 0, b_Active = 0,
             b_HTTPActive = 0\<rparr>),
        fresh := Suc (fresh w)\<rparr>)"

text \<open>The index of the first element of a list that satisfies a test.\<close>

fun index_where :: "('a \<Rightarrow> bool) \<Rightarrow> 'a list \<Rightarrow> nat option" where
  "index_where P [] = None"
| "index_where P (x # xs) =
     (if P x then Some 0 else map_option Suc (index_where P xs))"

definition add :: "Service \<Rightarrow> ref \<Rightarrow> world \<Rightarrow> Service \<times> world" where
  "add s backend w =
     (let w1 = w\<lparr>heap := (heap w)(backend := (heap w backend)
                  \<lparr>up := True,
                   rwTimeout := s_ServerTimeout s,
                   dialTimeout := s_DialTimeout s,
                   checkInterval := s_CheckInterval s * Millisecond\<rparr>)\<rparr>
      in case index_where (\<lambda>b. b_Name (heap w1 b) = b_Name (heap w1 backend)) (s_Backends s) of
           Some i \<Rightarrow>
             (s\<lparr>s_Backends := (s_Backends s)[i := backend]\<rparr>,
              w1\<lparr>trace := trace w1 @ [BackendStop (s_Backends s ! i), BackendStart backend]\<rparr>)
         | None \<Rightarrow>
             (s\<lparr>s_Backends := s_Backends s @ [backend]\<rparr>,
              w1\<lparr>trace := trace w1 @ [BackendStart backend]\<rparr>))"

text \<open>The loop of \<open>NewService\<close> over \<open>cfg.Backends\<close>.\<close>

fun add_all :: "BackendConfig list \<Rightarrow> Service \<Rightarrow> world \<Rightarrow> Service \<times> world" where
  "add_all [] s w = (s, w)"
| "add_all (b # bs) s w =
     (case NewBackend b w of
        (r, w1) \<Rightarrow> (case add s r w1 of (s2, w2) \<Rightarrow> add_all bs s2 w2))"

definition NewService :: "ServiceConfig \<Rightarrow> world \<Rightarrow> Service \<times> world" where
  "NewService cfg w =
     (let s0 = \<lparr>s_Name = c_Name cfg,
                s_Addr = c_Addr cfg,
                s_VirtualHosts = c_VirtualHosts cfg,
                s_Backends = [],
                s_Balance = [],
                s_CheckInterval = c_CheckInterval cfg,
                s_Fall = c_Fall cfg,
                s_Rise = c_Rise cfg,
                s_ClientTimeout = c_ClientTimeout cfg * Millisecond,
                s_ServerTimeout = c_ServerTimeout cfg * Millisecond,
                s_DialTimeout = c_DialTimeout cfg * Millisecond,
                s_next = None,
                s_listener = None,
                s_httpProxy = None,
                s_errPagesCfg = c_ErrorPages cfg,
                s_dialer = None\<rparr>;
          s1 = s0\<lparr>s_dialer := Some \<lparr>Timeout = s_DialTimeout s0, KeepAlive = 30 * Second\<rparr>\<rparr>;
          s2 = s1\<lparr>s_httpProxy := Some
                 \<lparr>MaxIdleConnsPerHost = 10,
                  FlushInterval = Second,
                  OnRequest = [cb_sslRedirect],
                  OnResponse = [cb_logProxyRequest, cb_errStats, cb_CheckResponse]\<rparr>\<rparr>;
          s3 = (if s_CheckInterval s2 = 0 then s2\<lparr>s_CheckInterval := 2000\<rparr> else s2);
          s4 = (if s_Rise s3 = 0 then s3\<lparr>s_Rise := 2\<rparr> else s3);
          s5 = (if s_Fall s4 = 0 then s4\<lparr>s_Fall := 2\<rparr> else s4)
      in case add_all (c_Backends cfg) s5 w of
           (s6, w') \<Rightarrow>
             (if c_Balance cfg = ''RR'' \<or> c_Balance cfg = '''' then s6\<lparr>s_next := Some roundRobin\<rparr>
              else if c_Balance cfg = ''LC'' then s6\<lparr>s_next := Some leastConn\<rparr>
              else s6,
              w'))"

text \<open>\<open>start\<close>: the listener is assigned whatever \<open>newTimeoutListener\<close> returns, nil
  with an error; the accept loop is spawned only after a successful bind.\<close>

definition newTimeoutListener :: "listen \<Rightarrow> string \<Rightarrow> int64 \<Rightarrow> error + timeoutListener" where
  "newTimeoutListener lis addr timeout =
     (case lis addr of
        Inl err \<Rightarrow> Inl err
      | Inr l \<Rightarrow> Inr \<lparr>tl_Listener = l, tl_rwTimeout = timeout\<rparr>)"

definition run :: "Service \<Rightarrow> world \<Rightarrow> world" where
  "run s w =
     (case s_listener s of
        Some l \<Rightarrow> w\<lparr>trace := trace w @ [AcceptLoop (tl_Listener l)]\<rparr>
      | None \<Rightarrow> w)"

definition start :: "listen \<Rightarrow> Service \<Rightarrow> world \<Rightarrow> error option \<times> Service \<times> world" where
  "start lis s w =
     (case newTimeoutListener lis (s_Addr s) (s_ClientTimeout s) of
        Inl err \<Rightarrow> (Some err, s\<lparr>s_listener := None\<rparr>, w)
      | Inr l \<Rightarrow> (None, s\<lparr>s_listener := Some l\<rparr>, run (s\<lparr>s_listener := Some l\<rparr>) w))"

text \<open>\<open>Close\<close> called on the listener interface: a nil interface panics.\<close>

definition listener_Close :: "timeoutListener option \<Rightarrow> world \<Rightarrow> panic + world" where
  "listener_Close l w =
     (case l of
        None \<Rightarrow> Inl NilDereference
      | Some ln \<Rightarrow> Inr (w\<lparr>trace := trace w @ [ListenerClose (tl_Listener ln)]\<rparr>))"

fun stop_backends :: "ref list \<Rightarrow> world \<Rightarrow> world" where
  "stop_backends [] w = w"
| "stop_backends (b # bs) w = stop_backends bs (w\<lparr>trace := trace w @ [BackendStop b]\<rparr>)"

definition stop :: "Service \<Rightarrow> world \<Rightarrow> panic + world" where
  "stop s w =
     (let w1 = stop_backends (s_Backends s) w
      in if s_listener s = None then Inr w1
         else listener_Close (s_listener s) w1)"

text \<open>\<open>atomic.AddInt64\<close> on a counter of the backend behind a pointer.\<close>

definition add_Errors :: "ref \<Rightarrow> (ref \<Rightarrow> Backend) \<Rightarrow> (ref \<Rightarrow> Backend)" where
  "add_Errors b h = h(b := (h b)\<lparr>b_Errors := b_Errors (h b) + 1\<rparr>)"

definition add_Conns :: "ref \<Rightarrow> (ref \<Rightarrow> Backend) \<Rightarrow> (ref \<Rightarrow> Backend)" where
  "add_Conns b h = h(b := (h b)\<lparr>b_Conns := b_Conns (h b) + 1\<rparr>)"

definition add_HTTPActive :: "ref \<Rightarrow> (ref \<Rightarrow> Backend) \<Rightarrow> (ref \<Rightarrow> Backend)" where
  "add_HTTPActive b h = h(b := (h b)\<lparr>b_HTTPActive := b_HTTPActive (h b) + 1\<rparr>)"

text \<open>
  The network seen through a \<open>net.Dialer\<close>: the outcome of the n-th dial, made by a
  dialer with its timeout and keep-alive, to an address. \<open>s.dialer.Dial\<close> reads the
  settings of the dialer behind the pointer \<open>s.dialer\<close>: on a nil pointer it panics,
  otherwise it makes the next dial.
\<close>

type_synonym network = "nat \<Rightarrow> Dialer \<Rightarrow> string \<Rightarrow> error + conn"

definition dialer_Dial ::
  "network \<Rightarrow> Dialer option \<Rightarrow> string \<Rightarrow> world \<Rightarrow> panic + (error + conn) \<times> world" where
  "dialer_Dial net dialer addr w =
     (case dialer of
        None \<Rightarrow> Inl NilDereference
      | Some d \<Rightarrow> Inr (net (dials w) d addr, w\<lparr>dials := Suc (dials w)\<rparr>))"

text \<open>A counter pointer given to the connection wrapper names a field of a backend.\<close>

datatype counter = SentOf ref | RcvdOf ref | HTTPActiveOf ref

record shuttleConn =
  TCPConn :: conn
  sc_rwTimeout :: int64
  sc_sent :: counter
  sc_rcvd :: counter
  sc_active :: "counter option"

text \<open>
  \<open>NewConn\<close>, the constructor of the connection wrapper, is not in the source at hand:
  in \<open>Dial\<close> it is a parameter, a function that is given the connection, the timeout,
  the three counter pointers and the heap, and returns the wrapper and the heap as it
  leaves it.
\<close>

type_synonym wrap =
  "conn \<Rightarrow> int64 \<Rightarrow> counter \<Rightarrow> counter \<Rightarrow> counter option \<Rightarrow> (ref \<Rightarrow> Backend) \<Rightarrow>
     shuttleConn \<times> (ref \<Rightarrow> Backend)"

text \<open>
  Modelled from the spec: \<open>NewConn\<close> wraps a TCP connection with a read/write timeout
  and with pointers to the counters for bytes sent and bytes received and to the active
  gauge, and the active gauge is incremented on construction.
\<close>

fun add_counter :: "counter \<Rightarrow> (ref \<Rightarrow> Backend) \<Rightarrow> (ref \<Rightarrow> Backend)" where
  "add_counter (SentOf b) h = h(b := (h b)\<lparr>b_Sent := b_Sent (h b) + 1\<rparr>)"
| "add_counter (RcvdOf b) h = h(b := (h b)\<lparr>b_Rcvd := b_Rcvd (h b) + 1\<rparr>)"
| "add_counter (HTTPActiveOf b) h = add_HTTPActive b h"

definition NewConn :: wrap where
  "NewConn c timeout sent rcvd active h =
     (\<lparr>TCPConn = c, sc_rwTimeout = timeout, sc_sent = sent, sc_rcvd = rcvd, sc_active = active\<rparr>,
      case active of None \<Rightarrow> h | Some gauge \<Rightarrow> add_counter gauge h)"

definition Dial ::
  "wrap \<Rightarrow> network \<Rightarrow> Service \<Rightarrow> string \<Rightarrow> string \<Rightarrow> world \<Rightarrow>
     panic + (error + shuttleConn) \<times> world" where
  "Dial newConn net s nw addr w =
     (case find (\<lambda>b. b_Addr (heap w b) = addr) (s_Backends s) of
        None \<Rightarrow> Inr (Inl (DialError (Err (''no backend matching '' @ addr))), w)
      | Some backend \<Rightarrow>
          (case dialer_Dial net (s_dialer s) (b_Addr (heap w backend)) w of
             Inl p \<Rightarrow> Inl p
           | Inr (Inl err, w1) \<Rightarrow>
               Inr (Inl (DialError err), w1\<lparr>heap := add_Errors backend (heap w1)\<rparr>)
           | Inr (Inr srvConn, w1) \<Rightarrow>
               (case newConn srvConn (s_ServerTimeout s) (SentOf backend) (RcvdOf backend)
                       (Some (HTTPActiveOf backend)) (heap w1) of
                  (c, h) \<Rightarrow>
                    Inr (Inr c, w1\<lparr>heap := add_HTTPActive backend (add_Conns backend h)\<rparr>))))"

text \<open>The loop of \<open>connect\<close> over the backends the balancer returned, and what follows
  the loop when no dial succeeded. Every dial goes through \<open>s.dialer\<close>.\<close>

fun connect_loop :: "network \<Rightarrow> Service \<Rightarrow> conn \<Rightarrow> ref list \<Rightarrow> world \<Rightarrow> panic + world" where
  "connect_loop net s cliConn [] w = Inr (w\<lparr>trace := trace w @ [ConnClose cliConn]\<rparr>)"
| "connect_loop net s cliConn (b # bs) w =
     (case dialer_Dial net (s_dialer s) (b_Addr (heap w b)) w of
        Inl p \<Rightarrow> Inl p
      | Inr (Inl err, w1) \<Rightarrow>
          connect_loop net s cliConn bs (w1\<lparr>heap := add_Errors b (heap w1)\<rparr>)
      | Inr (Inr srvConn, w1) \<Rightarrow>
          Inr (w1\<lparr>trace := trace w1 @ [BackendProxy b srvConn cliConn]\<rparr>))"

text \<open>
  The balancers \<open>roundRobin\<close> and \<open>leastConn\<close> are not in the source at hand: what the
  function in \<open>s.next\<close> returns (the ordered backends, and the service with its cursor
  moved) is a parameter. A nil \<open>s.next\<close> cannot be called.
\<close>

type_synonym selector = "balancer \<Rightarrow> Service \<Rightarrow> world \<Rightarrow> ref list \<times> Service"

definition connect :: "selector \<Rightarrow> network \<Rightarrow> Service \<Rightarrow> conn \<Rightarrow> world \<Rightarrow> panic + Service \<times> world" where
  "connect sel net s cliConn w =
     (case s_next s of
        None \<Rightarrow> Inl NilDereference
      | Some f \<Rightarrow>
          (case sel f s w of
             (backends, s') \<Rightarrow>
               (case connect_loop net s' cliConn backends w of
                  Inl p \<Rightarrow> Inl p
                | Inr w' \<Rightarrow> Inr (s', w'))))"

section \<open>Go library functions the handlers call\<close>

text \<open>\<open>strings.Index\<close>: the index of the first instance of \<open>sep\<close> in \<open>s\<close>, or -1.\<close>

fun Index :: "string \<Rightarrow> string \<Rightarrow> int" where
  "Index [] sep = (if sep = [] then 0 else - 1)"
| "Index (c # cs) sep =
     (if prefix sep (c # cs) then 0
      else (let i = Index cs sep in if i < 0 then - 1 else i + 1))"

definition Contains :: "string \<Rightarrow> string \<Rightarrow> bool" where
  "Contains s substr = (Index s substr \<ge> 0)"

definition HasSuffix :: "string \<Rightarrow> string \<Rightarrow> bool" where
  "HasSuffix s suf = suffix suf s"

text \<open>The slice expression \<open>s[i:]\<close>, for \<open>0 \<le> i \<le> len(s)\<close> (outside that range Go
  panics; \<open>strings.Index(s, sep) + 1\<close> is always inside it).\<close>

definition slice_from :: "string \<Rightarrow> int \<Rightarrow> string" where
  "slice_from s i = drop (nat i) s"

text \<open>The index of the first and of the last instance of a byte, or -1.\<close>

fun IndexByte :: "string \<Rightarrow> char \<Rightarrow> int" where
  "IndexByte [] c = - 1"
| "IndexByte (x # xs) c =
     (if x = c then 0 else (let i = IndexByte xs c in if i < 0 then - 1 else i + 1))"

definition LastIndexByte :: "string \<Rightarrow> char \<Rightarrow> int" where
  "LastIndexByte s c =
     (let i = IndexByte (rev s) c in if i < 0 then - 1 else int (length s) - 1 - i)"

text \<open>
  \<open>net.SplitHostPort\<close> of the Go standard library, which returns a host, a port and an
  error. All three results are kept, since the router uses the host whatever the error.
\<close>

definition addrErr :: "string \<Rightarrow> string \<Rightarrow> string \<times> string \<times> error option" where
  "addrErr addr why = ([], [], Some (Err (''address '' @ addr @ '': '' @ why)))"

definition splitRest ::
  "string \<Rightarrow> string \<Rightarrow> nat \<Rightarrow> nat \<Rightarrow> int \<Rightarrow> string \<times> string \<times> error option" where
  "splitRest hostport host j k i =
     (if IndexByte (drop j hostport) (CHR ''['') \<ge> 0
        then addrErr hostport ''unexpected '[' in address''
      else if IndexByte (drop k hostport) (CHR '']'') \<ge> 0
        then addrErr hostport ''unexpected ']' in address''
      else (host, slice_from hostport (i + 1), None))"

definition SplitHostPort :: "string \<Rightarrow> string \<times> string \<times> error option" where
  "SplitHostPort hostport =
     (let i = LastIndexByte hostport (CHR '':'')
      in if i < 0 then addrErr hostport ''missing port in address''
         else if take 1 hostport = ''[''
         then (let e = IndexByte hostport (CHR '']'')
               in if e < 0 then addrErr hostport ''missing ']' in address''
                  else if e + 1 = int (length hostport)
                    then addrErr hostport ''missing port in address''
                  else if e + 1 = i
                    then splitRest hostport (take (nat e - 1) (drop 1 hostport)) 1 (nat (e + 1)) i
                  else if hostport ! nat (e + 1) = CHR '':''
                    then addrErr hostport ''too many colons in address''
                  else addrErr hostport ''missing port in address'')
         else (let host = take (nat i) hostport
               in if IndexByte host (CHR '':'') \<ge> 0
                    then addrErr hostport ''too many colons in address''
                  else splitRest hostport host 0 0 i))"

text \<open>\<open>error.Error()\<close>: the message of an error.\<close>

fun errString :: "error \<Rightarrow> string" where
  "errString (Err m) = m"
| "errString (DialError e) = errString e"

text \<open>\<open>http.Error\<close> writes the status and the message followed by a newline. The
  headers it sets on the way are not modelled.\<close>

definition http_Error :: "ResponseWriter \<Rightarrow> string \<Rightarrow> int \<Rightarrow> ResponseWriter" where
  "http_Error w msg code = Write (msg @ [CHR 0x0A]) (WriteHeader code w)"

text \<open>\<open>fmt\<close>'s \<open>%v\<close> of a slice of strings: the elements between brackets, separated by
  spaces.\<close>

fun join :: "string list \<Rightarrow> string \<Rightarrow> string" where
  "join [] sep = []"
| "join [x] sep = x"
| "join (x # y # ys) sep = x @ sep @ join (y # ys) sep"

definition fmt_v :: "string list \<Rightarrow> string" where
  "fmt_v xs = ''['' @ join xs '' '' @ '']''"

section \<open>Shuttle: the registry as the handlers see it\<close>

text \<open>
  The fields of \<open>ServiceStat\<close> that the admin fallback prints. \<open>BackendStat\<close> is not in
  the source at hand: it is a type parameter, and \<open>json.Marshal\<close> of one is a parameter
  of the handler.
\<close>

record 'b ServiceStat =
  ss_VirtualHosts :: "string list"
  ss_Backends :: "'b list"

text \<open>
  The shuttle's \<open>ServiceRegistry\<close> is not in the source at hand: its state is a type
  parameter and the methods the handlers call are parameters, a nil \<open>*Service\<close> being
  \<open>None\<close> and a nil error \<open>None\<close>.
\<close>

record ('r, 'b) Registry =
  GetVHostService :: "'r \<Rightarrow> string \<Rightarrow> Service option"
  VHostsLen :: "'r \<Rightarrow> int"
  Stats :: "'r \<Rightarrow> 'b ServiceStat list"
  GetService :: "'r \<Rightarrow> string \<Rightarrow> Service option"
  AddService :: "'r \<Rightarrow> ServiceConfig \<Rightarrow> error option \<times> 'r"
  UpdateService :: "'r \<Rightarrow> ServiceConfig \<Rightarrow> error option \<times> 'r"
  Config :: "'r \<Rightarrow> ServiceConfig list"

section \<open>Shuttle: the virtual-host router\<close>

record Request =
  r_Host :: string
  r_Header :: header

text \<open>What the router does with a request: it hands it to a service's \<open>ServeHTTP\<close>, or
  the admin fallback writes the response.\<close>

datatype routed = ServiceServeHTTP Service Request | Admin ResponseWriter

text \<open>The inner and the outer loop of \<open>adminHandler\<close>.\<close>

fun write_backends :: "('b \<Rightarrow> bytes) \<Rightarrow> 'b list \<Rightarrow> ResponseWriter \<Rightarrow> ResponseWriter" where
  "write_backends json [] w = w"
| "write_backends json (b # bs) w =
     write_backends json bs (Write ([CHR 0x09] @ json b @ [CHR 0x0A]) w)"

fun write_stats :: "('b \<Rightarrow> bytes) \<Rightarrow> 'b ServiceStat list \<Rightarrow> ResponseWriter \<Rightarrow> ResponseWriter" where
  "write_stats json [] w = w"
| "write_stats json (svc # svcs) w =
     (if length (ss_VirtualHosts svc) = 0 then write_stats json svcs w
      else write_stats json svcs
             (write_backends json (ss_Backends svc)
                (Write (fmt_v (ss_VirtualHosts svc) @ [CHR 0x0A]) w)))"

definition adminHandler ::
  "('b \<Rightarrow> bytes) \<Rightarrow> ('r, 'b) Registry \<Rightarrow> 'r \<Rightarrow> ResponseWriter \<Rightarrow> ResponseWriter" where
  "adminHandler json R reg w =
     (if VHostsLen R reg = 0 then http_Error w ''no backends available'' 503
      else Write [CHR 0x0A] (write_stats json (Stats R reg) w))"

text \<open>The host the router looks up: \<open>req.Host\<close>, or when that contains a colon the host
  that \<open>net.SplitHostPort\<close> returns, whether or not it also returns an error.\<close>

definition routeHost :: "(string \<Rightarrow> string \<times> string \<times> error option) \<Rightarrow> Request \<Rightarrow> string" where
  "routeHost split req =
     (if Contains (r_Host req) '':'' then fst (split (r_Host req)) else r_Host req)"

text \<open>\<open>HostRouter.ServeHTTP\<close>; \<open>reqId\<close> is what \<open>genId()\<close> returned.\<close>

definition ServeHTTP ::
  "(string \<Rightarrow> string \<times> string \<times> error option) \<Rightarrow> ('b \<Rightarrow> bytes) \<Rightarrow> ('r, 'b) Registry \<Rightarrow> 'r \<Rightarrow>
     string \<Rightarrow> ResponseWriter \<Rightarrow> Request \<Rightarrow> routed" where
  "ServeHTTP split json R reg reqId w req =
     (let req1 = req\<lparr>r_Header := (r_Header req)(''X-Request-Id'' \<mapsto> [reqId])\<rparr>;
          host = routeHost split req1
      in case GetVHostService R reg host of
           Some svc \<Rightarrow>
             if s_httpProxy svc \<noteq> None then ServiceServeHTTP svc req1
             else Admin (adminHandler json R reg w)
         | None \<Rightarrow> Admin (adminHandler json R reg w))"

section \<open>Shuttle: the admin handler for a service\<close>

text \<open>The zero value of \<open>client.ServiceConfig\<close> with the name set.\<close>

definition namedConfig :: "string \<Rightarrow> ServiceConfig" where
  "namedConfig name =
     \<lparr>c_Name = name, c_Addr = [], c_VirtualHosts = [], c_Backends = [], c_Balance = [],
      c_CheckInterval = 0, c_Fall = 0, c_Rise = 0, c_ClientTimeout = 0, c_ServerTimeout = 0,
      c_DialTimeout = 0, c_ErrorPages = []\<rparr>"

text \<open>The loop of \<open>postService\<close> over the ports in use: the first port that the
  address of the config ends with, if any.\<close>

fun usedPort :: "string list \<Rightarrow> string \<Rightarrow> string option" where
  "usedPort [] addr = None"
| "usedPort (port # ports) addr =
     (if HasSuffix addr port then Some port else usedPort ports addr)"

text \<open>
  \<open>postService\<close>. The listen addresses of the proxy and of the admin server are globals
  set at startup; \<open>json.Unmarshal\<close> into a config and \<open>marshal\<close> of the registry's config
  are parameters; \<open>service\<close> is the name in the path and \<open>reqBody\<close> what reading the body
  gives. Writing the state file in the background is not modelled.
\<close>

definition postService ::
  "string \<Rightarrow> string \<Rightarrow> (bytes \<Rightarrow> ServiceConfig \<Rightarrow> error + ServiceConfig) \<Rightarrow>
     (ServiceConfig list \<Rightarrow> bytes) \<Rightarrow> ('r, 'b) Registry \<Rightarrow>
     string \<Rightarrow> read_result \<Rightarrow> ResponseWriter \<Rightarrow> 'r \<Rightarrow> ResponseWriter \<times> 'r" where
  "postService listenAddr adminListenAddr unmarshal marshal R service reqBody w reg =
     (case reqBody of
        ReadErr err \<Rightarrow> (http_Error w (errString err) 500, reg)
      | ReadOk b \<Rightarrow>
          (case unmarshal b (namedConfig service) of
             Inl err \<Rightarrow> (http_Error w (errString err) 500, reg)
           | Inr svcCfg \<Rightarrow>
               let invalidPorts =
                     [slice_from listenAddr (Index listenAddr '':'' + 1),
                      slice_from adminListenAddr (Index adminListenAddr '':'' + 1)]
               in case usedPort invalidPorts (c_Addr svcCfg) of
                    Some port \<Rightarrow>
                      (http_Error w (''cannot use '' @ port @ '' for listener port'') 400, reg)
                  | None \<Rightarrow>
                      if GetService R reg (c_Name svcCfg) = None
                      then (case AddService R reg svcCfg of
                              (Some e, reg') \<Rightarrow> (http_Error w (errString e) 500, reg')
                            | (None, reg') \<Rightarrow> (Write (marshal (Config R reg')) w, reg'))
                      else (case UpdateService R reg svcCfg of
                              (Some e, reg') \<Rightarrow> (http_Error w (errString e) 500, reg')
                            | (None, reg') \<Rightarrow> (Write (marshal (Config R reg')) w, reg'))))"

section \<open>What the admin fallback prints\<close>

text \<open>The text of the dump, said directly: for every service with a virtual host, the
  line of its virtual hosts and one indented line per backend.\<close>

definition dump :: "('b \<Rightarrow> bytes) \<Rightarrow> 'b ServiceStat list \<Rightarrow> bytes" where
  "dump json stats =
     concat (map (\<lambda>svc. if ss_VirtualHosts svc = [] then []
                         else fmt_v (ss_VirtualHosts svc) @ [CHR 0x0A] @
                              concat (map (\<lambda>b. [CHR 0x09] @ json b @ [CHR 0x0A]) (ss_Backends svc)))
                 stats)"

section \<open>Example inputs\<close>

text \<open>An error page for 503 and 504 that has not been fetched yet, an origin that is
  down, one that serves the page with status 503, and one that answers 200 with an empty
  body; an upstream response with status 504.\<close>

definition page503 :: ErrorPage where
  "page503 = \<lparr>Location = ''http://pages/503.html'', StatusCodes = [503, 504],
               body = None, header = Map.empty\<rparr>"

definition pages503 :: ErrorResponse where
  "pages503 = \<lparr>pages = [503 \<mapsto> 0, 504 \<mapsto> 0]\<rparr>"

definition st503 :: pagestate where
  "st503 = \<lparr>store = (\<lambda>_. page503), requests = []\<rparr>"

definition cl_down :: client where
  "cl_down = (\<lambda>loc. Inl (Err ''connection refused''))"

definition resp_maint :: Response where
  "resp_maint = \<lparr>StatusCode = 503,
       Header = [''Content-Type'' \<mapsto> [''text/html''], ''X-Served-By'' \<mapsto> [''origin'']],
       Body = ReadOk ''maint''\<rparr>"

definition cl_maint :: client where
  "cl_maint = (\<lambda>loc. Inr resp_maint)"

definition resp_blank :: Response where
  "resp_blank = \<lparr>StatusCode = 200,
       Header = [''Content-Type'' \<mapsto> [''text/html'']],
       Body = ReadOk []\<rparr>"

definition cl_blank :: client where
  "cl_blank = (\<lambda>loc. Inr resp_blank)"

definition writer0 :: ResponseWriter where
  "writer0 = \<lparr>rw_header = Map.empty, rw_status = None, rw_body = []\<rparr>"

definition pr504 :: ProxyRequest where
  "pr504 = \<lparr>pr_Response = \<lparr>StatusCode = 504, Header = Map.empty, Body = ReadOk ''upstream''\<rparr>,
            pr_ResponseWriter = writer0\<rparr>"

text \<open>Two backends, A at reference 0 and B at reference 1; a network where only B's
  address accepts connections; a balancer that returns the backends as they are stored;
  a service over the two backends; an address that cannot be bound.\<close>

definition backendA :: Backend where
  "backendA = \<lparr>b_Name = ''A'', b_Addr = ''10.0.0.1:80'', b_CheckAddr = [], up = True,
     rwTimeout = 0, dialTimeout = 0, checkInterval = 0, b_Sent = 0, b_Rcvd = 0, b_Errors = 0,
     b_Conns = 0, b_Active = 0, b_HTTPActive = 0\<rparr>"

definition backendB :: Backend where
  "backendB = backendA\<lparr>b_Name := ''B'', b_Addr := ''10.0.0.2:80''\<rparr>"

definition world0 :: world where
  "world0 = \<lparr>heap = (\<lambda>r. if r = 0 then backendA else backendB), fresh = 2, dials = 0, trace = []\<rparr>"

definition net0 :: network where
  "net0 = (\<lambda>n d addr. if addr = ''10.0.0.2:80'' then Inr 7 else Inl (Err ''connection refused''))"

definition sel0 :: selector where
  "sel0 = (\<lambda>f s w. (s_Backends s, s))"

definition svc0 :: Service where
  "svc0 = \<lparr>s_Name = ''web'', s_Addr = ''127.0.0.1:9000'', s_VirtualHosts = [],
     s_Backends = [0, 1], s_Balance = [], s_CheckInterval = 2000, s_Fall = 2, s_Rise = 2,
     s_ClientTimeout = 0, s_ServerTimeout = 5 * Second, s_DialTimeout = 0,
     s_next = Some roundRobin, s_listener = None, s_httpProxy = None, s_errPagesCfg = [],
     s_dialer = None\<rparr>"

definition lis_busy :: listen where
  "lis_busy = (\<lambda>addr. Inl (Err ''address already in use''))"

text \<open>A config with round-robin balancing, the backends A and B, a dial timeout of two
  seconds and a server timeout of five; the service and the world that \<open>NewService\<close>
  makes of it in a world where nothing has been allocated yet.\<close>

definition cfgRR :: ServiceConfig where
  "cfgRR = \<lparr>c_Name = ''web'', c_Addr = ''127.0.0.1:9000'', c_VirtualHosts = [],
     c_Backends = [\<lparr>bc_Name = ''A'', bc_Addr = ''10.0.0.1:80'', bc_CheckAddr = []\<rparr>,
                   \<lparr>bc_Name = ''B'', bc_Addr = ''10.0.0.2:80'', bc_CheckAddr = []\<rparr>],
     c_Balance = ''RR'', c_CheckInterval = 0, c_Fall = 0, c_Rise = 0,
     c_ClientTimeout = 0, c_ServerTimeout = 5000, c_DialTimeout = 2000, c_ErrorPages = []\<rparr>"

definition worldE :: world where
  "worldE = \<lparr>heap = (\<lambda>r. backendA), fresh = 0, dials = 0, trace = []\<rparr>"

definition svcRR :: Service where
  "svcRR = fst (NewService cfgRR worldE)"

definition worldRR :: world where
  "worldRR = snd (NewService cfgRR worldE)"

text \<open>A config with an unknown balancing algorithm, a zero check interval and fall, and
  a rise of 5.\<close>

definition cfgXX :: ServiceConfig where
  "cfgXX = \<lparr>c_Name = ''web'', c_Addr = ''127.0.0.1:9000'', c_VirtualHosts = [],
     c_Backends = [\<lparr>bc_Name = ''A'', bc_Addr = ''10.0.0.1:80'', bc_CheckAddr = []\<rparr>],
     c_Balance = ''XX'', c_CheckInterval = 0, c_Fall = 0, c_Rise = 5,
     c_ClientTimeout = 0, c_ServerTimeout = 0, c_DialTimeout = 0, c_ErrorPages = []\<rparr>"

text \<open>A service with an HTTP proxy; a registry whose state is the list of the configs
  added to it, and which maps the hosts \<open>a.example\<close> and \<open>[::1]\<close> to that service;
  three requests; a decoder that takes the body for the address of the config.\<close>

definition svcP :: Service where
  "svcP = \<lparr>s_Name = ''web'', s_Addr = ''127.0.0.1:9000'',
     s_VirtualHosts = [''a.example'', ''[::1]''],
     s_Backends = [], s_Balance = [], s_CheckInterval = 2000, s_Fall = 2, s_Rise = 2,
     s_ClientTimeout = 0, s_ServerTimeout = 0, s_DialTimeout = 0,
     s_next = Some roundRobin, s_listener = None,
     s_httpProxy = Some \<lparr>MaxIdleConnsPerHost = 10, FlushInterval = Second,
        OnRequest = [cb_sslRedirect],
        OnResponse = [cb_logProxyRequest, cb_errStats, cb_CheckResponse]\<rparr>,
     s_errPagesCfg = [], s_dialer = None\<rparr>"

definition registry0 :: "(ServiceConfig list, string) Registry" where
  "registry0 =
     \<lparr>GetVHostService =
        (\<lambda>reg host. if host = ''a.example'' \<or> host = ''[::1]'' then Some svcP else None),
      VHostsLen = (\<lambda>reg. 2),
      Stats = (\<lambda>reg. [\<lparr>ss_VirtualHosts = [''a.example'', ''[::1]''], ss_Backends = []\<rparr>]),
      GetService = (\<lambda>reg name. None),
      AddService = (\<lambda>reg cfg. (None, reg @ [cfg])),
      UpdateService = (\<lambda>reg cfg. (None, reg)),
      Config = (\<lambda>reg. reg)\<rparr>"

definition req_port :: Request where
  "req_port = \<lparr>r_Host = ''a.example:8080'', r_Header = Map.empty\<rparr>"

definition req_v6 :: Request where
  "req_v6 = \<lparr>r_Host = ''[::1]'', r_Header = Map.empty\<rparr>"

definition req_v6_port :: Request where
  "req_v6_port = \<lparr>r_Host = ''[::1]:8080'', r_Header = Map.empty\<rparr>"

definition unmarshal0 :: "bytes \<Rightarrow> ServiceConfig \<Rightarrow> error + ServiceConfig" where
  "unmarshal0 = (\<lambda>b cfg. Inr (cfg\<lparr>c_Addr := b\<rparr>))"

definition marshal0 :: "ServiceConfig list \<Rightarrow> bytes" where
  "marshal0 = (\<lambda>cfgs. concat (map c_Name cfgs))"

section \<open>The error-page cache: what a fetch stores\<close>

lemma okStatus_mem: "okStatus codes status = (if status \<in> set codes then 200 else status)"
  by (induction codes) auto

lemma copyHeaders_apply:
  "copyHeaders keys src hdr k = (if k \<in> set keys \<and> src k \<noteq> None then src k else hdr k)"
  by (induction keys arbitrary: hdr) (auto split: option.splits)

lemma copyHeaders_restrict: "copyHeaders keys src Map.empty = src |` set keys"
  by (rule ext) (auto simp: copyHeaders_apply restrict_map_def)

text \<open>\<open>fetch\<close> always asks the origin once; it writes the page only for a non-empty body
  read from a response whose status is 200 or one of the page's codes.\<close>

lemma fetch_cases:
  "fetch cl p st =
     (case cl (Location (store st p)) of
        Inl err \<Rightarrow> st\<lparr>requests := requests st @ [Location (store st p)]\<rparr>
      | Inr resp \<Rightarrow>
          (case Body resp of
             ReadOk b \<Rightarrow>
               if (StatusCode resp \<in> set (StatusCodes (store st p)) \<or> StatusCode resp = 200) \<and> b \<noteq> []
               then \<lparr>store = (store st)(p := (store st p)\<lparr>header := Header resp |` set ErrorHeaders,
                                                       body := Some b\<rparr>),
                     requests = requests st @ [Location (store st p)]\<rparr>
               else st\<lparr>requests := requests st @ [Location (store st p)]\<rparr>
           | ReadErr err \<Rightarrow> st\<lparr>requests := requests st @ [Location (store st p)]\<rparr>))"
  by (auto simp: fetch_def Let_def okStatus_mem copyHeaders_restrict
      split: sum.splits read_result.splits)

lemma CheckResponse_result:
  "CheckResponse cl e pr st =
     (case pages e (StatusCode (pr_Response pr)) of
        None \<Rightarrow> (True, pr, st)
      | Some p \<Rightarrow>
          let st' = (if body (store st p) \<noteq> None then st else fetch cl p st);
              w = pr_ResponseWriter pr
          in (False,
              pr\<lparr>pr_ResponseWriter :=
                   Write (slice (body (store st' p)))
                     (WriteHeader (StatusCode (pr_Response pr))
                        (w\<lparr>rw_header := rw_header w ++ header (store st' p)\<rparr>))\<rparr>,
              st'))"
  by (simp add: CheckResponse_def Get_def Let_def split: option.splits)

text \<open>
  C4, as amended. For a fetch that the origin answers: a status among the page's status
  codes counts as 200; when the effective status is not 200 the page is left as it was;
  when it is 200 and the body is read without error and is not empty, the page gets that
  body and exactly the headers of the response that are on the allow-list (Content-Type,
  Content-Encoding, Cache-Control, Last-Modified, Retry-After, Set-Cookie); when it is
  200 and the body is empty or cannot be read, the page is left as it was.
\<close>

theorem fetch_caches_allow_listed:
  assumes "cl (Location (store st p)) = Inr resp"
  shows "let page = store st p;
             eff = (if StatusCode resp \<in> set (StatusCodes page) then 200 else StatusCode resp);
             st' = fetch cl p st
         in set ErrorHeaders = {''Content-Type'', ''Content-Encoding'', ''Cache-Control'',
                                ''Last-Modified'', ''Retry-After'', ''Set-Cookie''} \<and>
            okStatus (StatusCodes page) (StatusCode resp) = eff \<and>
            (eff \<noteq> 200 \<longrightarrow> store st' = store st) \<and>
            (\<forall>b. eff = 200 \<and> Body resp = ReadOk b \<and> b \<noteq> [] \<longrightarrow>
                 store st' = (store st)(p := page\<lparr>header := Header resp |` set ErrorHeaders,
                                                   body := Some b\<rparr>)) \<and>
            (eff = 200 \<and> (Body resp = ReadOk [] \<or> (\<exists>err. Body resp = ReadErr err)) \<longrightarrow>
                 store st' = store st)"
  using assms
  by (auto simp: fetch_cases Let_def ErrorHeaders_def okStatus_mem split: read_result.splits)

text \<open>Witness for C4: the origin answers 503, one of the page's codes, with the body
  \<open>maint\<close>; the body and the Content-Type header are stored, the other header is not.\<close>

theorem fetch_caches_allow_listed_witness:
  "cl_maint (Location (store st503 0)) = Inr resp_maint \<and>
   body (store (fetch cl_maint 0 st503) 0) = Some ''maint'' \<and>
   header (store (fetch cl_maint 0 st503) 0) ''Content-Type'' = Some [''text/html''] \<and>
   header (store (fetch cl_maint 0 st503) 0) ''X-Served-By'' = None"
proof -
  have h: "cl_maint (Location (store st503 0)) = Inr resp_maint"
    by (simp add: cl_maint_def)
  show ?thesis
    using h fetch_caches_allow_listed [where cl = cl_maint and st = st503 and p = 0
        and resp = resp_maint]
    by (simp add: Let_def st503_def page503_def resp_maint_def restrict_map_def ErrorHeaders_def)
qed

text \<open>Counterexample to C4 as stated: the origin answers 200 with a Content-Type header
  and an empty body; the effective status is 200, yet neither the header nor a body is
  stored.\<close>

theorem fetch_empty_body_counterexample:
  "cl_blank (Location (store st503 0)) = Inr resp_blank \<and>
   okStatus (StatusCodes (store st503 0)) (StatusCode resp_blank) = 200 \<and>
   Header resp_blank ''Content-Type'' = Some [''text/html''] \<and>
   header (store (fetch cl_blank 0 st503) 0) ''Content-Type'' = None \<and>
   body (store (fetch cl_blank 0 st503) 0) = None"
  by (simp add: fetch_cases cl_blank_def resp_blank_def st503_def page503_def)

text \<open>
  C10. When a fetch for a page whose body is nil gets an effective 200 with a body of
  length zero, the page is left as it was, its body still nil; so a later \<open>Get\<close> for a
  status of that page fetches again, which sends the origin one more request. And
  whatever a fetch gets, the body of every page afterwards is the one it had before or
  a non-empty one.
\<close>

theorem fetch_empty_body_unpopulated:
  assumes "body (store st p) = None"
      and "cl (Location (store st p)) = Inr resp"
      and "okStatus (StatusCodes (store st p)) (StatusCode resp) = 200"
      and "Body resp = ReadOk []"
      and "pages e code = Some p"
  shows "store (fetch cl p st) = store st \<and>
         body (store (fetch cl p st) p) = None \<and>
         Get cl' e code (fetch cl p st) = (Some p, fetch cl' p (fetch cl p st)) \<and>
         requests (snd (Get cl' e code (fetch cl p st))) =
           requests st @ [Location (store st p), Location (store st p)] \<and>
         (\<forall>cl2 p2 st2 q. body (store (fetch cl2 p2 st2) q) = body (store st2 q) \<or>
                (\<exists>b. b \<noteq> [] \<and> body (store (fetch cl2 p2 st2) q) = Some b))"
proof -
  have unchanged: "store (fetch cl p st) = store st"
    using assms(2,4) by (simp add: fetch_cases)
  have reqs: "requests (fetch cl2 p2 st2) = requests st2 @ [Location (store st2 p2)]"
    for cl2 p2 st2
    by (simp add: fetch_cases split: sum.splits read_result.splits)
  have inv: "body (store (fetch cl2 p2 st2) q) = body (store st2 q) \<or>
                (\<exists>b. b \<noteq> [] \<and> body (store (fetch cl2 p2 st2) q) = Some b)"
    for cl2 p2 st2 q
    by (simp add: fetch_cases split: sum.splits read_result.splits)
  show ?thesis
    using assms(1,5) unchanged inv by (simp add: Get_def reqs)
qed

text \<open>Witness for C10: the page for 503 and 504 is fetched from the origin that answers
  200 with an empty body; a \<open>Get\<close> for 504 then asks the origin a second time.\<close>

theorem fetch_empty_body_unpopulated_witness:
  "store (fetch cl_blank 0 st503) = store st503 \<and>
   Get cl_maint pages503 504 (fetch cl_blank 0 st503) =
     (Some 0, fetch cl_maint 0 (fetch cl_blank 0 st503)) \<and>
   requests (snd (Get cl_maint pages503 504 (fetch cl_blank 0 st503))) =
     [''http://pages/503.html'', ''http://pages/503.html'']"
proof -
  have h1: "body (store st503 0) = None" by (simp add: st503_def page503_def)
  have h2: "cl_blank (Location (store st503 0)) = Inr resp_blank"
    by (simp add: cl_blank_def)
  have h3: "okStatus (StatusCodes (store st503 0)) (StatusCode resp_blank) = 200"
    by (simp add: st503_def page503_def resp_blank_def)
  have h4: "Body resp_blank = ReadOk []"
    by (simp add: resp_blank_def)
  have h5: "pages pages503 504 = Some 0" by (simp add: pages503_def)
  have e: "requests st503 @ [Location (store st503 0), Location (store st503 0)] =
      [''http://pages/503.html'', ''http://pages/503.html'']"
    by (simp add: st503_def page503_def)
  show ?thesis
    using fetch_empty_body_unpopulated [where cl = cl_blank and st = st503 and p = 0
        and resp = resp_blank and e = pages503 and code = 504 and cl' = cl_maint,
        OF h1 h2 h3 h4 h5]
    unfolding e by blast
qed

text \<open>
  C1, at the input where the code departs from it. The page for status 504 exists, its
  body is nil and the origin cannot be reached, so the re-fetch inside \<open>Get\<close> leaves the
  body nil. \<open>CheckResponse\<close> nevertheless returns false, which ends the pipeline, after
  writing status 504 and an empty body: the upstream body \<open>upstream\<close> is not passed on.
\<close>

theorem CheckResponse_unpopulated_page:
  "(case CheckResponse cl_down pages503 pr504 st503 of
      (continue, pr', st') \<Rightarrow>
        continue = False \<and>
        rw_status (pr_ResponseWriter pr') = Some 504 \<and>
        rw_body (pr_ResponseWriter pr') = [] \<and>
        body (store st' 0) = None \<and>
        requests st' = [''http://pages/503.html'']) \<and>
   Body (pr_Response pr504) = ReadOk ''upstream''"
  by (simp add: CheckResponse_result fetch_cases cl_down_def pages503_def pr504_def writer0_def
      st503_def page503_def WriteHeader_def Write_def slice_def Let_def)

section \<open>Services: construction, dialling, stopping\<close>

lemma add_keeps:
  "add s r w = (s', w') \<Longrightarrow>
     s_CheckInterval s' = s_CheckInterval s \<and> s_Rise s' = s_Rise s \<and> s_Fall s' = s_Fall s \<and>
     s_next s' = s_next s \<and> s_listener s' = s_listener s \<and> s_dialer s' = s_dialer s \<and>
     s_DialTimeout s' = s_DialTimeout s"
  by (auto simp: add_def Let_def split: option.splits)

lemma add_all_keeps:
  "add_all bs s w = (s', w') \<Longrightarrow>
     s_CheckInterval s' = s_CheckInterval s \<and> s_Rise s' = s_Rise s \<and> s_Fall s' = s_Fall s \<and>
     s_next s' = s_next s \<and> s_listener s' = s_listener s \<and> s_dialer s' = s_dialer s \<and>
     s_DialTimeout s' = s_DialTimeout s"
proof (induction bs arbitrary: s w)
  case Nil
  then show ?case by simp
next
  case (Cons b bs)
  obtain r w1 where nb: "NewBackend b w = (r, w1)" by (cases "NewBackend b w")
  obtain s2 w2 where ad: "add s r w1 = (s2, w2)" by (cases "add s r w1")
  from Cons.prems nb ad have "add_all bs s2 w2 = (s', w')" by simp
  from Cons.IH [OF this] add_keeps [OF ad] show ?case by simp
qed

lemma NewService_fields:
  "NewService cfg w = (s, w') \<Longrightarrow>
     s_CheckInterval s = (if c_CheckInterval cfg = 0 then 2000 else c_CheckInterval cfg) \<and>
     s_Rise s = (if c_Rise cfg = 0 then 2 else c_Rise cfg) \<and>
     s_Fall s = (if c_Fall cfg = 0 then 2 else c_Fall cfg) \<and>
     s_listener s = None \<and>
     s_DialTimeout s = c_DialTimeout cfg * Millisecond \<and>
     s_dialer s = Some \<lparr>Timeout = s_DialTimeout s, KeepAlive = 30 * Second\<rparr> \<and>
     s_next s = (if c_Balance cfg = ''RR'' \<or> c_Balance cfg = [] then Some roundRobin
                 else if c_Balance cfg = ''LC'' then Some leastConn else None)"
  unfolding NewService_def Let_def
  by (auto split: prod.splits if_splits dest!: add_all_keeps)

text \<open>The service and the world that \<open>NewService\<close> makes of the round-robin config.\<close>

lemma svcRR_backends: "s_Backends svcRR = [0, 1]"
  by (simp add: svcRR_def NewService_def cfgRR_def worldE_def NewBackend_def add_def Let_def)

lemma svcRR_timeout: "s_ServerTimeout svcRR = 5000 * Millisecond"
  by (simp add: svcRR_def NewService_def cfgRR_def worldE_def NewBackend_def add_def Let_def)

lemma svcRR_fields:
  "s_next svcRR = Some roundRobin \<and>
   s_DialTimeout svcRR = 2000 * Millisecond \<and>
   s_dialer svcRR = Some \<lparr>Timeout = s_DialTimeout svcRR, KeepAlive = 30 * Second\<rparr>"
  using NewService_fields [of cfgRR worldE svcRR worldRR]
  by (simp add: svcRR_def worldRR_def cfgRR_def)

lemma worldRR_eval:
  "dials worldRR = 0 \<and> trace worldRR = [BackendStart 0, BackendStart 1] \<and>
   b_Addr (heap worldRR 0) = ''10.0.0.1:80'' \<and> b_Addr (heap worldRR 1) = ''10.0.0.2:80'' \<and>
   b_Errors (heap worldRR 0) = 0 \<and> b_Conns (heap worldRR 1) = 0 \<and>
   b_HTTPActive (heap worldRR 1) = 0"
  by (simp add: worldRR_def NewService_def cfgRR_def worldE_def NewBackend_def add_def Let_def)

lemma worldRR_eval_Suc:
  "b_Addr (heap worldRR (Suc 0)) = ''10.0.0.2:80'' \<and> b_Conns (heap worldRR (Suc 0)) = 0 \<and>
   b_HTTPActive (heap worldRR (Suc 0)) = 0"
  using worldRR_eval by (simp flip: One_nat_def)

text \<open>
  C5. The service built from a config has check interval 2000 when the config's is 0 and
  the config's otherwise, and likewise rise 2 and fall 2 in place of 0.
\<close>

theorem NewService_defaults:
  "s_CheckInterval (fst (NewService cfg w)) =
     (if c_CheckInterval cfg = 0 then 2000 else c_CheckInterval cfg) \<and>
   s_Rise (fst (NewService cfg w)) = (if c_Rise cfg = 0 then 2 else c_Rise cfg) \<and>
   s_Fall (fst (NewService cfg w)) = (if c_Fall cfg = 0 then 2 else c_Fall cfg)"
  using NewService_fields [of cfg w "fst (NewService cfg w)" "snd (NewService cfg w)"]
  by simp

text \<open>Witness for C5: check interval 0 and fall 0 get the defaults, rise 5 is kept.\<close>

theorem NewService_defaults_witness:
  "s_CheckInterval (fst (NewService cfgXX world0)) = 2000 \<and>
   s_Rise (fst (NewService cfgXX world0)) = 5 \<and>
   s_Fall (fst (NewService cfgXX world0)) = 2"
  using NewService_defaults [of cfgXX world0] by (simp add: cfgXX_def)

lemma unset_selector_panics:
  assumes "c_Balance cfg \<noteq> ''RR''" and "c_Balance cfg \<noteq> []" and "c_Balance cfg \<noteq> ''LC''"
  shows "s_next (fst (NewService cfg w)) = None \<and>
         connect sel net (fst (NewService cfg w)) cli w' = Inl NilDereference"
  using assms NewService_fields [of cfg w "fst (NewService cfg w)" "snd (NewService cfg w)"]
  by (simp add: connect_def)

text \<open>
  C6, at the input where the code departs from it. With the balance string \<open>XX\<close> the
  selector of the new service is left nil, and \<open>connect\<close> on an accepted connection calls
  it: the call panics, before anything is closed.
\<close>

theorem connect_unset_selector:
  "s_next (fst (NewService cfgXX world0)) = None \<and>
   connect sel0 net0 (fst (NewService cfgXX world0)) 3 (snd (NewService cfgXX world0)) =
     Inl NilDereference"
  using unset_selector_panics [of cfgXX world0 sel0 net0 3 "snd (NewService cfgXX world0)"]
  by (simp add: cfgXX_def)

lemma add_Errors_Addr [simp]: "b_Addr (add_Errors b h x) = b_Addr (h x)"
  by (simp add: add_Errors_def)

text \<open>A dial through a nil dialer panics: in \<open>connect\<close> as soon as there is a backend to
  dial, in \<open>Dial\<close> as soon as a backend has the address.\<close>

lemma connect_loop_nil_dialer:
  "s_dialer s = None \<Longrightarrow> connect_loop net s cli (b # bs) w = Inl NilDereference"
  by (simp add: dialer_Dial_def)




lemma find_first:
  "xs = pre @ b # post \<Longrightarrow> \<forall>x\<in>set pre. \<not> P x \<Longrightarrow> P b \<Longrightarrow> find P xs = Some b"
  by (induction pre arbitrary: xs) auto

lemma Dial_nil_dialer:
  "find (\<lambda>b. b_Addr (heap w b) = addr) (s_Backends s) = Some b \<Longrightarrow> s_dialer s = None \<Longrightarrow>
     Dial newConn net s nw addr w = Inl NilDereference"
  by (simp add: Dial_def dialer_Dial_def)

text \<open>
  C3. \<open>Dial\<close> for an address that no backend of the service has returns a \<open>DialError\<close>
  and changes nothing. When \<open>b\<close> is the first backend with that address and the service
  has the dialer \<open>d\<close>: if the dial that \<open>d\<close> makes fails with \<open>err\<close>, \<open>Dial\<close> returns
  \<open>DialError err\<close> and \<open>b\<close>'s error counter is one higher; if the dial gives the
  connection \<open>c\<close>, \<open>Dial\<close> returns what \<open>NewConn\<close> makes of \<open>c\<close>, the server timeout of
  the service and the pointers to \<open>b\<close>'s \<open>Sent\<close>, \<open>Rcvd\<close> and \<open>HTTPActive\<close>, and \<open>b\<close>'s
  \<open>Conns\<close> and \<open>HTTPActive\<close> are each one higher than \<open>NewConn\<close> left them.
\<close>

theorem Dial_outcomes:
  "((\<forall>b\<in>set (s_Backends s). b_Addr (heap w b) \<noteq> addr) \<longrightarrow>
      Dial newConn net s nw addr w =
        Inr (Inl (DialError (Err (''no backend matching '' @ addr))), w)) \<and>
   (s_Backends s = pre @ b # post \<and> (\<forall>x\<in>set pre. b_Addr (heap w x) \<noteq> addr) \<and>
    b_Addr (heap w b) = addr \<and> s_dialer s = Some d \<longrightarrow>
      (\<forall>err. net (dials w) d addr = Inl err \<longrightarrow>
         Dial newConn net s nw addr w =
           Inr (Inl (DialError err),
                w\<lparr>dials := Suc (dials w),
                  heap := (heap w)(b := (heap w b)\<lparr>b_Errors := b_Errors (heap w b) + 1\<rparr>)\<rparr>)) \<and>
      (\<forall>c wrapped h.
         net (dials w) d addr = Inr c \<and>
         newConn c (s_ServerTimeout s) (SentOf b) (RcvdOf b) (Some (HTTPActiveOf b)) (heap w) =
           (wrapped, h) \<longrightarrow>
         Dial newConn net s nw addr w =
           Inr (Inr wrapped,
                w\<lparr>dials := Suc (dials w),
                  heap := h(b := (h b)\<lparr>b_Conns := b_Conns (h b) + 1,
                                        b_HTTPActive := b_HTTPActive (h b) + 1\<rparr>)\<rparr>)))"
proof (intro conjI impI allI)
  assume "\<forall>b\<in>set (s_Backends s). b_Addr (heap w b) \<noteq> addr"
  then have "find (\<lambda>b. b_Addr (heap w b) = addr) (s_Backends s) = None"
    by (simp add: find_None_iff)
  then show "Dial newConn net s nw addr w =
      Inr (Inl (DialError (Err (''no backend matching '' @ addr))), w)"
    by (simp add: Dial_def)
next
  fix err
  assume a: "s_Backends s = pre @ b # post \<and> (\<forall>x\<in>set pre. b_Addr (heap w x) \<noteq> addr) \<and>
    b_Addr (heap w b) = addr \<and> s_dialer s = Some d" and n: "net (dials w) d addr = Inl err"
  from a have "find (\<lambda>b. b_Addr (heap w b) = addr) (s_Backends s) = Some b"
    by (intro find_first [where pre = pre and post = post]) auto
  with a n show "Dial newConn net s nw addr w =
           Inr (Inl (DialError err),
                w\<lparr>dials := Suc (dials w),
                  heap := (heap w)(b := (heap w b)\<lparr>b_Errors := b_Errors (heap w b) + 1\<rparr>)\<rparr>)"
    by (simp add: Dial_def dialer_Dial_def add_Errors_def)
next
  fix c wrapped h
  assume a: "s_Backends s = pre @ b # post \<and> (\<forall>x\<in>set pre. b_Addr (heap w x) \<noteq> addr) \<and>
    b_Addr (heap w b) = addr \<and> s_dialer s = Some d"
    and n: "net (dials w) d addr = Inr c \<and>
         newConn c (s_ServerTimeout s) (SentOf b) (RcvdOf b) (Some (HTTPActiveOf b)) (heap w) =
           (wrapped, h)"
  from a have "find (\<lambda>b. b_Addr (heap w b) = addr) (s_Backends s) = Some b"
    by (intro find_first [where pre = pre and post = post]) auto
  with a n show "Dial newConn net s nw addr w =
           Inr (Inr wrapped,
                w\<lparr>dials := Suc (dials w),
                  heap := h(b := (h b)\<lparr>b_Conns := b_Conns (h b) + 1,
                                        b_HTTPActive := b_HTTPActive (h b) + 1\<rparr>)\<rparr>)"
    by (simp add: Dial_def dialer_Dial_def add_Conns_def add_HTTPActive_def)
qed

text \<open>Witness for C3, on the service that \<open>NewService\<close> makes of the round-robin
  config, with \<open>NewConn\<close> as the spec describes it: no backend has the address
  10.0.0.9:80; the dial to A's address fails and A's error counter becomes 1; the dial
  to B's address gives connection 7, which comes back wrapped with the server timeout
  of five seconds and the pointers to B's counters, B's \<open>Conns\<close> becomes 1, and B's
  \<open>HTTPActive\<close> is one higher than the 1 that \<open>NewConn\<close> left.\<close>

theorem Dial_outcomes_witness:
  "Dial NewConn net0 svcRR ''tcp'' ''10.0.0.9:80'' worldRR =
     Inr (Inl (DialError (Err ''no backend matching 10.0.0.9:80'')), worldRR) \<and>
   map_sum id fst (Dial NewConn net0 svcRR ''tcp'' ''10.0.0.1:80'' worldRR) =
     Inr (Inl (DialError (Err ''connection refused''))) \<and>
   map_sum id (\<lambda>r. b_Errors (heap (snd r) 0))
     (Dial NewConn net0 svcRR ''tcp'' ''10.0.0.1:80'' worldRR) = Inr 1 \<and>
   map_sum id fst (Dial NewConn net0 svcRR ''tcp'' ''10.0.0.2:80'' worldRR) =
     Inr (Inr \<lparr>TCPConn = 7, sc_rwTimeout = 5000 * Millisecond, sc_sent = SentOf 1,
               sc_rcvd = RcvdOf 1, sc_active = Some (HTTPActiveOf 1)\<rparr>) \<and>
   map_sum id (\<lambda>r. b_Conns (heap (snd r) 1))
     (Dial NewConn net0 svcRR ''tcp'' ''10.0.0.2:80'' worldRR) = Inr 1 \<and>
   b_HTTPActive (snd (NewConn 7 (5000 * Millisecond) (SentOf 1) (RcvdOf 1)
                        (Some (HTTPActiveOf 1)) (heap worldRR)) 1) = 1 \<and>
   map_sum id (\<lambda>r. b_HTTPActive (heap (snd r) 1))
     (Dial NewConn net0 svcRR ''tcp'' ''10.0.0.2:80'' worldRR) = Inr 2"
proof -
  let ?d = "\<lparr>Timeout = s_DialTimeout svcRR, KeepAlive = 30 * Second\<rparr>"
  have dl: "s_dialer svcRR = Some ?d" using svcRR_fields by simp
  have h1: "\<forall>b\<in>set (s_Backends svcRR). b_Addr (heap worldRR b) \<noteq> ''10.0.0.9:80''"
    by (simp add: svcRR_backends worldRR_eval worldRR_eval_Suc)
  have r1: "Dial NewConn net0 svcRR ''tcp'' ''10.0.0.9:80'' worldRR =
     Inr (Inl (DialError (Err ''no backend matching 10.0.0.9:80'')), worldRR)"
    using h1 Dial_outcomes [where s = svcRR and w = worldRR and addr = "''10.0.0.9:80''"
        and net = net0 and nw = "''tcp''" and pre = "[]" and b = 0 and post = "[]"
        and newConn = NewConn and d = ?d]
    by simp
  have h2: "s_Backends svcRR = [] @ 0 # [1] \<and>
      (\<forall>x\<in>set []. b_Addr (heap worldRR x) \<noteq> ''10.0.0.1:80'') \<and>
      b_Addr (heap worldRR 0) = ''10.0.0.1:80'' \<and> s_dialer svcRR = Some ?d"
    using dl by (simp add: svcRR_backends worldRR_eval worldRR_eval_Suc)
  have n2: "net0 (dials worldRR) ?d ''10.0.0.1:80'' = Inl (Err ''connection refused'')"
    by (simp add: net0_def)
  have r2: "Dial NewConn net0 svcRR ''tcp'' ''10.0.0.1:80'' worldRR =
      Inr (Inl (DialError (Err ''connection refused'')),
           worldRR\<lparr>dials := Suc (dials worldRR),
             heap := (heap worldRR)(0 := (heap worldRR 0)
                        \<lparr>b_Errors := b_Errors (heap worldRR 0) + 1\<rparr>)\<rparr>)"
    using h2 n2 Dial_outcomes [where s = svcRR and w = worldRR and addr = "''10.0.0.1:80''"
        and net = net0 and nw = "''tcp''" and pre = "[]" and b = 0 and post = "[1]"
        and newConn = NewConn and d = ?d]
    by blast
  let ?h = "add_HTTPActive 1 (heap worldRR)"
  have h3: "s_Backends svcRR = [0] @ 1 # [] \<and>
      (\<forall>x\<in>set [0]. b_Addr (heap worldRR x) \<noteq> ''10.0.0.2:80'') \<and>
      b_Addr (heap worldRR 1) = ''10.0.0.2:80'' \<and> s_dialer svcRR = Some ?d"
    using dl by (simp add: svcRR_backends worldRR_eval worldRR_eval_Suc)
  have n3: "net0 (dials worldRR) ?d ''10.0.0.2:80'' = Inr 7 \<and>
      NewConn 7 (s_ServerTimeout svcRR) (SentOf 1) (RcvdOf 1) (Some (HTTPActiveOf 1))
        (heap worldRR) =
      (\<lparr>TCPConn = 7, sc_rwTimeout = 5000 * Millisecond, sc_sent = SentOf 1,
        sc_rcvd = RcvdOf 1, sc_active = Some (HTTPActiveOf 1)\<rparr>, ?h)"
    by (simp add: net0_def NewConn_def svcRR_timeout)
  have r3: "Dial NewConn net0 svcRR ''tcp'' ''10.0.0.2:80'' worldRR =
      Inr (Inr \<lparr>TCPConn = 7, sc_rwTimeout = 5000 * Millisecond, sc_sent = SentOf 1,
                sc_rcvd = RcvdOf 1, sc_active = Some (HTTPActiveOf 1)\<rparr>,
           worldRR\<lparr>dials := Suc (dials worldRR),
             heap := ?h(1 := (?h 1)\<lparr>b_Conns := b_Conns (?h 1) + 1,
                        b_HTTPActive := b_HTTPActive (?h 1) + 1\<rparr>)\<rparr>)"
    using h3 n3 Dial_outcomes [where s = svcRR and w = worldRR and addr = "''10.0.0.2:80''"
        and net = net0 and nw = "''tcp''" and pre = "[0]" and b = 1 and post = "[]"
        and newConn = NewConn and d = ?d]
    by blast
  show ?thesis
    unfolding r1 r2 r3
    by (simp add: worldRR_eval worldRR_eval_Suc NewConn_def add_HTTPActive_def)
qed

lemma stop_backends_trace:
  "stop_backends bs w = w\<lparr>trace := trace w @ map BackendStop bs\<rparr>"
  by (induction bs arbitrary: w) auto

text \<open>
  C9. \<open>stop\<close> never panics: it stops every backend of the service, in order, and then
  closes the listener if there is one and does nothing more if the listener is nil. A
  \<open>start\<close> whose bind fails returns the error and leaves the listener nil, so a \<open>stop\<close>
  after it only stops the backends; and a service that was never started has a nil
  listener.
\<close>

theorem stop_safe:
  "stop s w = Inr (w\<lparr>trace := trace w @ map BackendStop (s_Backends s) @
                       (case s_listener s of None \<Rightarrow> []
                        | Some l \<Rightarrow> [ListenerClose (tl_Listener l)])\<rparr>) \<and>
   (lis (s_Addr s) = Inl err \<longrightarrow>
      (case start lis s w of
         (e, s', w') \<Rightarrow>
           e = Some err \<and> s_listener s' = None \<and>
           stop s' w' = Inr (w\<lparr>trace := trace w @ map BackendStop (s_Backends s)\<rparr>))) \<and>
   s_listener (fst (NewService cfg w)) = None"
  using NewService_fields [of cfg w "fst (NewService cfg w)" "snd (NewService cfg w)"]
  by (auto simp: stop_def start_def newTimeoutListener_def listener_Close_def
      stop_backends_trace Let_def split: option.splits)

text \<open>Witness for C9: the address of the service is in use, \<open>start\<close> fails, and the
  \<open>stop\<close> that follows stops backends 0 and 1 and returns.\<close>

theorem stop_safe_witness:
  "lis_busy (s_Addr svc0) = Inl (Err ''address already in use'') \<and>
   (case start lis_busy svc0 world0 of
      (e, s', w') \<Rightarrow>
        e = Some (Err ''address already in use'') \<and> s_listener s' = None \<and>
        stop s' w' = Inr (world0\<lparr>trace := [BackendStop 0, BackendStop 1]\<rparr>))"
proof -
  have h: "lis_busy (s_Addr svc0) = Inl (Err ''address already in use'')"
    by (simp add: lis_busy_def)
  have t: "trace world0 @ map BackendStop (s_Backends svc0) = [BackendStop 0, BackendStop 1]"
    by (simp add: world0_def svc0_def)
  show ?thesis
    using h stop_safe [of svc0 world0 lis_busy "Err ''address already in use''" cfgXX]
    unfolding t by simp
qed

section \<open>The virtual-host router\<close>

lemma IndexByte_neg: "IndexByte s c < 0 \<longleftrightarrow> c \<notin> set s"
  by (induction s) (auto simp: Let_def)

lemma IndexByte_nonneg: "0 \<le> IndexByte s c \<longleftrightarrow> c \<in> set s"
  using IndexByte_neg [of s c] by auto

lemma IndexByte_first: "c \<notin> set xs \<Longrightarrow> IndexByte (xs @ c # ys) c = int (length xs)"
  by (induction xs) (auto simp: Let_def)

lemma LastIndexByte_last: "c \<notin> set p \<Longrightarrow> LastIndexByte (h @ c # p) c = int (length h)"
  using IndexByte_first [of c "rev p" "rev h"] by (simp add: LastIndexByte_def Let_def)

lemma Index_single: "0 \<le> Index s [c] \<longleftrightarrow> c \<in> set s"
  by (induction s) (auto simp: Let_def)

lemma Contains_colon: "Contains s '':'' \<longleftrightarrow> CHR '':'' \<in> set s"
  by (simp add: Contains_def Index_single)

lemma SplitHostPort_strips:
  assumes "\<forall>c\<in>set (h @ p). c \<notin> {CHR '':'', CHR ''['', CHR '']''}"
  shows "SplitHostPort (h @ CHR '':'' # p) = (h, p, None)"
proof -
  have i: "LastIndexByte (h @ CHR '':'' # p) (CHR '':'') = int (length h)"
    using assms by (intro LastIndexByte_last) auto
  have t: "take 1 (h @ CHR '':'' # p) \<noteq> ''[''"
    using assms by (cases h) auto
  have c: "\<not> 0 \<le> IndexByte h (CHR '':'')"
    using assms by (auto simp: IndexByte_nonneg)
  have b1: "\<not> 0 \<le> IndexByte (h @ CHR '':'' # p) (CHR ''['')"
    using assms by (auto simp: IndexByte_nonneg)
  have b2: "\<not> 0 \<le> IndexByte (h @ CHR '':'' # p) (CHR '']'')"
    using assms by (auto simp: IndexByte_nonneg)
  have n: "nat (int (length h) + 1) = Suc (length h)"
    by simp
  show ?thesis
    unfolding SplitHostPort_def Let_def i
    using t c b1 b2 by (simp add: splitRest_def slice_from_def n)
qed

lemma split_port: "SplitHostPort ''a.example:8080'' = (''a.example'', ''8080'', None)"
  by (simp add: SplitHostPort_def LastIndexByte_def splitRest_def slice_from_def Let_def)

lemma split_v6:
  "SplitHostPort ''[::1]'' = ([], [], Some (Err ''address [::1]: missing port in address''))"
  by (simp add: SplitHostPort_def LastIndexByte_def splitRest_def slice_from_def Let_def
      addrErr_def)

lemma Write_Write: "Write b (Write a w) = Write (a @ b) w"
  by (simp add: Write_def Let_def WriteHeader_def)

lemma write_backends_Write:
  "write_backends json bs (Write a w) =
     Write (a @ concat (map (\<lambda>b. [CHR 0x09] @ json b @ [CHR 0x0A]) bs)) w"
  by (induction bs arbitrary: a) (simp_all add: Write_Write)

lemma write_stats_Write:
  "Write c (write_stats json stats (Write a w)) = Write (a @ dump json stats @ c) w"
  by (induction stats arbitrary: a) (simp_all add: Write_Write write_backends_Write dump_def)

lemma write_stats_fresh:
  "Write c (write_stats json stats w) = Write (dump json stats @ c) w"
proof (induction stats arbitrary: w)
  case Nil
  then show ?case by (simp add: dump_def)
next
  case (Cons svc stats)
  show ?case
  proof (cases "ss_VirtualHosts svc = []")
    case True
    with Cons show ?thesis by (simp add: dump_def)
  next
    case False
    then show ?thesis
      by (simp add: write_backends_Write write_stats_Write dump_def)
  qed
qed

lemma adminHandler_result:
  "adminHandler json R reg w =
     (if VHostsLen R reg = 0 then Write (''no backends available'' @ [CHR 0x0A]) (WriteHeader 503 w)
      else Write (dump json (Stats R reg) @ [CHR 0x0A]) w)"
  by (simp add: adminHandler_def http_Error_def write_stats_fresh)

lemma split_v6_port: "SplitHostPort ''[::1]:8080'' = (''::1'', ''8080'', None)"
  by (simp add: SplitHostPort_def LastIndexByte_def splitRest_def slice_from_def Let_def)

text \<open>
  What the router does with any request. It sets the header X-Request-Id to the
  generated id. The host it looks up is the Host of the request when that has no colon,
  and otherwise the host that \<open>net.SplitHostPort\<close> returns for it, with or without an
  error. When the registry maps the host looked up to a service with an HTTP proxy, the
  request goes to that service's \<open>ServeHTTP\<close>; when it maps it to no such service, the
  admin fallback answers. On a writer nothing was written to, the fallback answers 503
  with the line \<open>no backends available\<close> when the registry counts no virtual host, and
  otherwise 200 with the dump of the virtual hosts and their backends followed by an
  empty line. For a Host \<open>h:p\<close> with no colon or bracket in \<open>h\<close> and \<open>p\<close>,
  \<open>net.SplitHostPort\<close> returns \<open>h\<close>.
\<close>

lemma ServeHTTP_result:
  "(let req1 = req\<lparr>r_Header := (r_Header req)(''X-Request-Id'' \<mapsto> [reqId])\<rparr>;
        host = (if CHR '':'' \<in> set (r_Host req) then fst (split (r_Host req)) else r_Host req)
    in (\<forall>svc. GetVHostService R reg host = Some svc \<and> s_httpProxy svc \<noteq> None \<longrightarrow>
          ServeHTTP split json R reg reqId w req = ServiceServeHTTP svc req1) \<and>
       ((\<forall>svc. GetVHostService R reg host = Some svc \<longrightarrow> s_httpProxy svc = None) \<longrightarrow>
          ServeHTTP split json R reg reqId w req = Admin (adminHandler json R reg w))) \<and>
   (rw_status w = None \<and> rw_body w = [] \<longrightarrow>
      (VHostsLen R reg = 0 \<longrightarrow>
         rw_status (adminHandler json R reg w) = Some 503 \<and>
         rw_body (adminHandler json R reg w) = ''no backends available'' @ [CHR 0x0A]) \<and>
      (VHostsLen R reg \<noteq> 0 \<longrightarrow>
         rw_status (adminHandler json R reg w) = Some 200 \<and>
         rw_body (adminHandler json R reg w) = dump json (Stats R reg) @ [CHR 0x0A])) \<and>
   (\<forall>h p. (\<forall>c\<in>set (h @ p). c \<notin> {CHR '':'', CHR ''['', CHR '']''}) \<longrightarrow>
          SplitHostPort (h @ CHR '':'' # p) = (h, p, None))"
proof (intro conjI)
  show "let req1 = req\<lparr>r_Header := (r_Header req)(''X-Request-Id'' \<mapsto> [reqId])\<rparr>;
        host = (if CHR '':'' \<in> set (r_Host req) then fst (split (r_Host req)) else r_Host req)
    in (\<forall>svc. GetVHostService R reg host = Some svc \<and> s_httpProxy svc \<noteq> None \<longrightarrow>
          ServeHTTP split json R reg reqId w req = ServiceServeHTTP svc req1) \<and>
       ((\<forall>svc. GetVHostService R reg host = Some svc \<longrightarrow> s_httpProxy svc = None) \<longrightarrow>
          ServeHTTP split json R reg reqId w req = Admin (adminHandler json R reg w))"
    by (auto simp: ServeHTTP_def routeHost_def Contains_colon Let_def split: option.splits)
next
  show "rw_status w = None \<and> rw_body w = [] \<longrightarrow>
      (VHostsLen R reg = 0 \<longrightarrow>
         rw_status (adminHandler json R reg w) = Some 503 \<and>
         rw_body (adminHandler json R reg w) = ''no backends available'' @ [CHR 0x0A]) \<and>
      (VHostsLen R reg \<noteq> 0 \<longrightarrow>
         rw_status (adminHandler json R reg w) = Some 200 \<and>
         rw_body (adminHandler json R reg w) = dump json (Stats R reg) @ [CHR 0x0A])"
    by (simp add: adminHandler_result Write_def WriteHeader_def Let_def)
next
  show "\<forall>h p. (\<forall>c\<in>set (h @ p). c \<notin> {CHR '':'', CHR ''['', CHR '']''}) \<longrightarrow>
          SplitHostPort (h @ CHR '':'' # p) = (h, p, None)"
    using SplitHostPort_strips by blast
qed

text \<open>A request for \<open>a.example:8080\<close> is looked up as \<open>a.example\<close> and goes, with its
  request id, to the service registered for that host.\<close>

lemma ServeHTTP_port_stripped:
  "ServeHTTP SplitHostPort id registry0 [] ''r1'' writer0 req_port =
     ServiceServeHTTP svcP (req_port\<lparr>r_Header := [''X-Request-Id'' \<mapsto> [''r1'']]\<rparr>)"
proof -
  have h: "GetVHostService registry0 [] ''a.example'' = Some svcP \<and> s_httpProxy svcP \<noteq> None"
    by (simp add: registry0_def svcP_def)
  show ?thesis
    using h ServeHTTP_result [of req_port "''r1''" SplitHostPort registry0 "[]" id writer0]
    by (simp add: Let_def req_port_def split_port)
qed

text \<open>
  C7, at the input where the code departs from it. The Host \<open>[::1]\<close> has no port to
  strip, and the registry maps it to a service with an HTTP proxy. But the Host has
  colons, so the router calls \<open>net.SplitHostPort\<close>, which fails on it and returns an
  empty host; the router keeps going with that empty host, looks it up, finds nothing
  and lets the admin fallback answer with status 200: the request is not delegated to
  the service. With a port, \<open>[::1]:8080\<close>, the same router looks up \<open>::1\<close>, as it
  looks up \<open>a.example\<close> for \<open>a.example:8080\<close>.
\<close>

theorem ServeHTTP_bracket_host_unrouted:
  "GetVHostService registry0 [] (r_Host req_v6) = Some svcP \<and> s_httpProxy svcP \<noteq> None \<and>
   SplitHostPort (r_Host req_v6) =
     ([], [], Some (Err ''address [::1]: missing port in address'')) \<and>
   routeHost SplitHostPort req_v6 = [] \<and>
   GetVHostService registry0 [] [] = None \<and>
   ServeHTTP SplitHostPort id registry0 [] ''r1'' writer0 req_v6 =
     Admin (adminHandler id registry0 [] writer0) \<and>
   rw_status (adminHandler id registry0 [] writer0) = Some 200 \<and>
   routeHost SplitHostPort req_v6_port = ''::1'' \<and>
   routeHost SplitHostPort req_port = ''a.example''"
proof -
  have a: "rw_status (adminHandler id registry0 [] writer0) = Some 200"
    by (simp add: adminHandler_result registry0_def writer0_def Write_def WriteHeader_def
        Let_def)
  have b: "ServeHTTP SplitHostPort id registry0 [] ''r1'' writer0 req_v6 =
     Admin (adminHandler id registry0 [] writer0)"
    by (simp add: ServeHTTP_def routeHost_def Contains_colon req_v6_def split_v6 registry0_def
        Let_def)
  have c: "routeHost SplitHostPort req_v6_port = ''::1''"
    by (simp add: routeHost_def Contains_colon req_v6_port_def split_v6_port)
  have d: "routeHost SplitHostPort req_port = ''a.example''"
    by (simp add: routeHost_def Contains_colon req_port_def split_port)
  show ?thesis
    unfolding a b c d
    by (simp add: routeHost_def Contains_colon req_v6_def split_v6 registry0_def svcP_def)
qed

section \<open>The admin handler for a service\<close>

text \<open>Once the body is read and decoded, \<open>postService\<close> answers 400 and leaves the
  registry alone as soon as the address of the config ends with the text after the first
  colon of the proxy's or of the admin server's listen address.\<close>

lemma postService_port_check:
  assumes "unmarshal b (namedConfig service) = Inr svcCfg"
  shows "postService listenAddr adminListenAddr unmarshal marshal R service (ReadOk b) w reg =
           (if HasSuffix (c_Addr svcCfg) (slice_from listenAddr (Index listenAddr '':'' + 1))
            then (http_Error w (''cannot use '' @ slice_from listenAddr (Index listenAddr '':'' + 1)
                                 @ '' for listener port'') 400, reg)
            else if HasSuffix (c_Addr svcCfg)
                      (slice_from adminListenAddr (Index adminListenAddr '':'' + 1))
            then (http_Error w (''cannot use ''
                     @ slice_from adminListenAddr (Index adminListenAddr '':'' + 1)
                     @ '' for listener port'') 400, reg)
            else if GetService R reg (c_Name svcCfg) = None
            then (case AddService R reg svcCfg of
                    (Some e, reg') \<Rightarrow> (http_Error w (errString e) 500, reg')
                  | (None, reg') \<Rightarrow> (Write (marshal (Config R reg')) w, reg'))
            else (case UpdateService R reg svcCfg of
                    (Some e, reg') \<Rightarrow> (http_Error w (errString e) 500, reg')
                  | (None, reg') \<Rightarrow> (Write (marshal (Config R reg')) w, reg')))"
  using assms by (simp add: postService_def Let_def)

lemma port_8080: "slice_from '':8080'' (Index '':8080'' '':'' + 1) = ''8080''"
  by (simp add: slice_from_def)

lemma port_9090: "slice_from ''127.0.0.1:9090'' (Index ''127.0.0.1:9090'' '':'' + 1) = ''9090''"
  by (simp add: slice_from_def Let_def)

text \<open>
  C8, at the input where the code departs from it. The proxy listens on port 8080 and
  the admin server on port 9090; a config for the address 127.0.0.1:18080, whose port
  is 18080, is rejected with status 400, and the registry stays empty.
\<close>

theorem postService_rejects_other_port:
  "SplitHostPort ''127.0.0.1:18080'' = (''127.0.0.1'', ''18080'', None) \<and>
   slice_from '':8080'' (Index '':8080'' '':'' + 1) = ''8080'' \<and>
   slice_from ''127.0.0.1:9090'' (Index ''127.0.0.1:9090'' '':'' + 1) = ''9090'' \<and>
   postService '':8080'' ''127.0.0.1:9090'' unmarshal0 marshal0 registry0 ''web''
       (ReadOk ''127.0.0.1:18080'') writer0 [] =
     (\<lparr>rw_header = Map.empty, rw_status = Some 400,
       rw_body = ''cannot use 8080 for listener port'' @ [CHR 0x0A]\<rparr>, [])"
proof -
  have sp: "SplitHostPort ''127.0.0.1:18080'' = (''127.0.0.1'', ''18080'', None)"
    by (simp add: SplitHostPort_def LastIndexByte_def splitRest_def slice_from_def Let_def)
  have u: "unmarshal0 ''127.0.0.1:18080'' (namedConfig ''web'') =
      Inr ((namedConfig ''web'')\<lparr>c_Addr := ''127.0.0.1:18080''\<rparr>)"
    by (simp add: unmarshal0_def)
  have sx: "HasSuffix (c_Addr ((namedConfig ''web'')\<lparr>c_Addr := ''127.0.0.1:18080''\<rparr>)) ''8080''"
    by (simp add: HasSuffix_def suffix_to_prefix)
  have r: "postService '':8080'' ''127.0.0.1:9090'' unmarshal0 marshal0 registry0 ''web''
       (ReadOk ''127.0.0.1:18080'') writer0 [] =
     (http_Error writer0 (''cannot use '' @ ''8080'' @ '' for listener port'') 400, [])"
    unfolding postService_port_check [where unmarshal = unmarshal0 and b = "''127.0.0.1:18080''"
        and service = "''web''"
        and svcCfg = "(namedConfig ''web'')\<lparr>c_Addr := ''127.0.0.1:18080''\<rparr>", OF u] port_8080
    using sx by simp
  have w: "http_Error writer0 (''cannot use '' @ ''8080'' @ '' for listener port'') 400 =
      \<lparr>rw_header = Map.empty, rw_status = Some 400,
       rw_body = ''cannot use 8080 for listener port'' @ [CHR 0x0A]\<rparr>"
    by (simp add: http_Error_def Write_def WriteHeader_def writer0_def Let_def)
  show ?thesis
    unfolding r w using sp port_8080 port_9090 by simp
qed

end
